theory Spec2Isabelle
  imports Main
begin

section \<open>JavaScript values\<close>

text \<open>
  The handler of \<^verbatim>\<open>functions/api/science-eq.js\<close> works on values that come out of
  \<^verbatim>\<open>request.json()\<close>, \<^verbatim>\<open>resp.json()\<close> and \<^verbatim>\<open>JSON.parse\<close>. They are modelled by
  \<open>jsval\<close>. A string is the list of its UTF-8 bytes. A number is kept as its canonical
  rendering (what \<^verbatim>\<open>String(n)\<close> gives, so \<open>''0''\<close> for both zeros): the code only tests
  numbers for truthiness and converts them to strings. An object is the list of its own
  properties; every object the handler meets was built by a JSON parser, so its
  prototype is \<^verbatim>\<open>Object.prototype\<close> and none of its properties is callable.
\<close>

datatype jsval =
    JUndefined
  | JNull
  | JBool bool
  | JNum string
  | JStr string
  | JArr "jsval list"
  | JObj "(string \<times> jsval) list"

text \<open>A thrown \<^verbatim>\<open>Error\<close>; the handler only ever reads its \<^verbatim>\<open>message\<close>.\<close>

datatype exn = Exn (message: string)

text \<open>The conversion to boolean behind \<^verbatim>\<open>!x\<close>, \<^verbatim>\<open>x || y\<close> and \<^verbatim>\<open>x ? a : b\<close>.\<close>

fun truthy :: "jsval \<Rightarrow> bool" where
  "truthy JUndefined = False"
| "truthy JNull = False"
| "truthy (JBool b) = b"
| "truthy (JNum n) = (n \<noteq> ''0'' \<and> n \<noteq> ''NaN'')"
| "truthy (JStr s) = (s \<noteq> [])"
| "truthy (JArr vs) = True"
| "truthy (JObj kvs) = True"

text \<open>
  \<^verbatim>\<open>x?.k\<close>, and the destructuring of \<^verbatim>\<open>body || {}\<close>, for the property names the handler
  uses (\<^verbatim>\<open>action\<close>, \<^verbatim>\<open>subject\<close>, \<^verbatim>\<open>topic\<close>, \<^verbatim>\<open>question\<close>, \<^verbatim>\<open>answer\<close>, \<^verbatim>\<open>choices\<close>, \<^verbatim>\<open>message\<close>,
  \<^verbatim>\<open>content\<close>, \<^verbatim>\<open>grade_band\<close>, \<^verbatim>\<open>score\<close>, \<^verbatim>\<open>feedback\<close>, \<^verbatim>\<open>improved_answer\<close>): none of them is
  defined by a built-in prototype, so only an object's own property can answer.
\<close>

fun js_get :: "jsval \<Rightarrow> string \<Rightarrow> jsval" where
  "js_get (JObj kvs) k = (case map_of kvs k of Some v \<Rightarrow> v | None \<Rightarrow> JUndefined)"
| "js_get v k = JUndefined"

text \<open>
  \<^verbatim>\<open>x?.[0]\<close>: the first element of an array, the property \<^verbatim>\<open>"0"\<close> of an object, the first
  character of a string (kept as its first byte: the handler only goes on to read
  \<^verbatim>\<open>.message\<close> from it, which a string does not have).
\<close>

fun js_elem0 :: "jsval \<Rightarrow> jsval" where
  "js_elem0 (JArr vs) = (case vs of [] \<Rightarrow> JUndefined | v # _ \<Rightarrow> v)"
| "js_elem0 (JObj kvs) = (case map_of kvs ''0'' of Some v \<Rightarrow> v | None \<Rightarrow> JUndefined)"
| "js_elem0 (JStr s) = (if s = [] then JUndefined else JStr (take 1 s))"
| "js_elem0 v = JUndefined"

text \<open>
  \<^verbatim>\<open>ToString\<close>, as applied by template literals, by \<^verbatim>\<open>ALLOWED[subject]\<close> and by
  \<^verbatim>\<open>JSON.parse(content)\<close>. An array joins its elements with commas, \<^verbatim>\<open>null\<close> and
  \<^verbatim>\<open>undefined\<close> elements giving the empty string. A parsed object answers
  \<^verbatim>\<open>[object Object]\<close> through \<^verbatim>\<open>Object.prototype.toString\<close>, unless it has an own
  property \<^verbatim>\<open>toString\<close>: that one is not callable, \<^verbatim>\<open>valueOf\<close> gives no primitive either,
  and the conversion throws a \<^verbatim>\<open>TypeError\<close> (the message is the engine's).
\<close>

fun to_string :: "jsval \<Rightarrow> exn + string"
  and join :: "jsval list \<Rightarrow> exn + string" where
  "to_string JUndefined = Inr ''undefined''"
| "to_string JNull = Inr ''null''"
| "to_string (JBool b) = Inr (if b then ''true'' else ''false'')"
| "to_string (JNum n) = Inr n"
| "to_string (JStr s) = Inr s"
| "to_string (JArr vs) = join vs"
| "to_string (JObj kvs) =
     (if map_of kvs ''toString'' \<noteq> None
      then Inl (Exn ''Cannot convert object to primitive value'')
      else Inr ''[object Object]'')"
| "join [] = Inr ''''"
| "join (v # vs) =
     (case (if v = JUndefined \<or> v = JNull then Inr '''' else to_string v) of
        Inl e \<Rightarrow> Inl e
      | Inr s \<Rightarrow>
          (if vs = [] then Inr s
           else case join vs of Inl e \<Rightarrow> Inl e | Inr r \<Rightarrow> Inr (s @ '','' @ r)))"

text \<open>The decimal rendering of a status code in a template literal.\<close>

fun string_of_nat :: "nat \<Rightarrow> string" where
  "string_of_nat n =
     (if n < 10 then [char_of (48 + n)]
      else string_of_nat (n div 10) @ [char_of (48 + n mod 10)])"

declare string_of_nat.simps [simp del]

text \<open>
  \<^verbatim>\<open>String.prototype.trim\<close> removes white space and line terminators from both ends:
  U+0009 to U+000D, U+0020, U+00A0, U+1680, U+2000 to U+200A, U+2028, U+2029, U+202F,
  U+205F, U+3000 and U+FEFF, here as UTF-8 byte sequences.
\<close>

definition js_whitespace :: "string list" where
  "js_whitespace =
     [[CHR 0x09], [CHR 0x0A], [CHR 0x0B], [CHR 0x0C], [CHR 0x0D], [CHR 0x20],
      [CHR 0xC2, CHR 0xA0],
      [CHR 0xE1, CHR 0x9A, CHR 0x80],
      [CHR 0xE2, CHR 0x80, CHR 0x80], [CHR 0xE2, CHR 0x80, CHR 0x81],
      [CHR 0xE2, CHR 0x80, CHR 0x82], [CHR 0xE2, CHR 0x80, CHR 0x83],
      [CHR 0xE2, CHR 0x80, CHR 0x84], [CHR 0xE2, CHR 0x80, CHR 0x85],
      [CHR 0xE2, CHR 0x80, CHR 0x86], [CHR 0xE2, CHR 0x80, CHR 0x87],
      [CHR 0xE2, CHR 0x80, CHR 0x88], [CHR 0xE2, CHR 0x80, CHR 0x89],
      [CHR 0xE2, CHR 0x80, CHR 0x8A],
      [CHR 0xE2, CHR 0x80, CHR 0xA8], [CHR 0xE2, CHR 0x80, CHR 0xA9],
      [CHR 0xE2, CHR 0x80, CHR 0xAF],
      [CHR 0xE2, CHR 0x81, CHR 0x9F],
      [CHR 0xE3, CHR 0x80, CHR 0x80],
      [CHR 0xEF, CHR 0xBB, CHR 0xBF]]"

text \<open>\<open>strip ws s\<close> removes from the front of \<open>s\<close> every leading occurrence of a sequence of \<open>ws\<close>.\<close>

function strip :: "string list \<Rightarrow> string \<Rightarrow> string" where
  "strip ws s =
     (case List.find (\<lambda>w. w \<noteq> [] \<and> take (length w) s = w) ws of
        None \<Rightarrow> s
      | Some w \<Rightarrow> strip ws (drop (length w) s))"
  by pat_completeness auto

termination
proof (relation "measure (\<lambda>(ws, s). length s)")
  show "wf (measure (\<lambda>(ws, s). length s))"
    by simp
next
  fix ws :: "string list" and s w :: string
  assume "List.find (\<lambda>w. w \<noteq> [] \<and> take (length w) s = w) ws = Some w"
  then have w: "w \<noteq> []" "take (length w) s = w"
    by (auto simp: find_Some_iff)
  have "length (take (length w) s) \<le> length s"
    by simp
  with w(2) have "length w \<le> length s"
    by simp
  with w(1) show "((ws, drop (length w) s), (ws, s)) \<in> measure (\<lambda>(ws, s). length s)"
    by (cases w) auto
qed

declare strip.simps [simp del]

definition trim :: "string \<Rightarrow> string" where
  "trim s = rev (strip (map rev js_whitespace) (rev (strip js_whitespace s)))"

section \<open>The platform and the outside world\<close>

text \<open>
  Two built-ins of the runtime are parameters of the model: \<^verbatim>\<open>JSON.parse\<close> (\<open>None\<close> when
  it throws) and the \<^verbatim>\<open>URL\<close> constructor (\<open>None\<close> when it throws), of whose result the
  code reads \<^verbatim>\<open>protocol\<close>, \<^verbatim>\<open>hostname\<close> and \<^verbatim>\<open>port\<close>.
\<close>

record url =
  protocol :: string
  hostname :: string
  port :: string

record platform =
  JSON_parse :: "string \<Rightarrow> jsval option"
  new_URL :: "string \<Rightarrow> url option"

text \<open>
  The incoming request: \<^verbatim>\<open>request.headers.get('Origin')\<close> (\<open>None\<close> for \<^verbatim>\<open>null\<close>) and the outcome
  of \<^verbatim>\<open>await request.json()\<close> (\<open>None\<close> when it rejects).
\<close>

record request =
  header_Origin :: "string option"
  request_json :: "jsval option"

record env =
  OPENAI_API_KEY :: "string option"

text \<open>
  The provider call: the argument of \<^verbatim>\<open>fetch\<close> (the body is the value handed to
  \<^verbatim>\<open>JSON.stringify\<close>) and its outcome, a rejection or a response with \<^verbatim>\<open>ok\<close>, \<^verbatim>\<open>status\<close> and
  the outcome of \<^verbatim>\<open>await resp.json()\<close>. The handler returns, next to its result, the list
  of the calls it made.
\<close>

record fetch_request =
  fetch_url :: string
  fetch_method :: string
  fetch_headers :: "(string \<times> string) list"
  fetch_body :: jsval

record fetch_response =
  ok :: bool
  resp_status :: nat
  resp_json :: "exn + jsval"

type_synonym fetch = "fetch_request \<Rightarrow> exn + fetch_response"

text \<open>
  The handler's response; \<open>response_body\<close> is the value handed to \<^verbatim>\<open>JSON.stringify\<close>, \<open>None\<close> for the
  \<^verbatim>\<open>null\<close> body of the preflight answer.
\<close>

record response =
  status :: nat
  headers :: "(string \<times> string) list"
  response_body :: "jsval option"

fun headers_set :: "string \<Rightarrow> string \<Rightarrow> (string \<times> string) list \<Rightarrow> (string \<times> string) list" where
  "headers_set k v [] = [(k, v)]"
| "headers_set k v ((k', v') # hs) =
     (if k' = k then (k, v) # hs else (k', v') # headers_set k v hs)"

fun join_with :: "string \<Rightarrow> string list \<Rightarrow> string" where
  "join_with sep [] = []"
| "join_with sep [x] = x"
| "join_with sep (x # y # ys) = x @ sep @ join_with sep (y # ys)"

section \<open>The endpoint\<close>

definition ALLOWED :: "(string \<times> string list) list" where
  "ALLOWED =
     [(''Physics'', [''Electricity'', ''Forces & Motion'']),
      (''Chemistry'', [''Acids & Bases'', ''Atomic Structure'']),
      (''Biology'', [''Genetics'', ''Human Body (3 Main Systems)''])]"

text \<open>
  \<^verbatim>\<open>ALLOWED\<close> is an object literal, so \<^verbatim>\<open>ALLOWED[key]\<close> also finds what it inherits from
  \<^verbatim>\<open>Object.prototype\<close>: functions, and for \<^verbatim>\<open>__proto__\<close> the prototype itself. All of them
  are truthy and none has a property \<^verbatim>\<open>includes\<close>.
\<close>

definition Object_prototype_names :: "string list" where
  "Object_prototype_names =
     [''constructor'', ''hasOwnProperty'', ''isPrototypeOf'', ''propertyIsEnumerable'',
      ''toLocaleString'', ''toString'', ''valueOf'', ''__proto__'',
      ''__defineGetter__'', ''__defineSetter__'', ''__lookupGetter__'', ''__lookupSetter__'']"

datatype property = Topics "string list" | Inherited | Missing

definition ALLOWED_get :: "string \<Rightarrow> property" where
  "ALLOWED_get k =
     (case map_of ALLOWED k of
        Some ts \<Rightarrow> Topics ts
      | None \<Rightarrow> if k \<in> set Object_prototype_names then Inherited else Missing)"

text \<open>\<^verbatim>\<open>Array.prototype.includes\<close> on an array of strings: only an equal string is found.\<close>

fun array_includes :: "string list \<Rightarrow> jsval \<Rightarrow> bool" where
  "array_includes ts (JStr t) = (t \<in> set ts)"
| "array_includes ts v = False"

definition canonical_origin :: string where
  "canonical_origin = ''https://artinamr.xyz''"

definition allowed_origins :: "string list" where
  "allowed_origins =
     [''https://artinamr.xyz'',
      ''http://localhost'',
      ''http://localhost:3000'',
      ''http://127.0.0.1:3000'',
      ''http://127.0.0.1:5500'',
      ''http://127.0.0.1:8788'',
      ''http://localhost:8788'']"

definition url_base :: "url \<Rightarrow> string" where
  "url_base u = protocol u @ ''//'' @ hostname u @ (if port u \<noteq> [] then '':'' @ port u else [])"

definition getCorsOrigin :: "platform \<Rightarrow> request \<Rightarrow> string" where
  "getCorsOrigin P req =
     (let origin = (case header_Origin req of Some v \<Rightarrow> v | None \<Rightarrow> [])
      in case new_URL P origin of
           Some u \<Rightarrow> if url_base u \<in> set allowed_origins then url_base u else canonical_origin
         | None \<Rightarrow> canonical_origin)"

text \<open>
  \<^verbatim>\<open>jsonResponse(data, init, origin)\<close>: every caller passes \<^verbatim>\<open>{ status: n }\<close> for \<^verbatim>\<open>init\<close>, so
  the headers start empty.
\<close>

definition jsonResponse :: "jsval \<Rightarrow> nat \<Rightarrow> string \<Rightarrow> response" where
  "jsonResponse data st origin =
     (let h = headers_set ''Content-Type'' ''application/json'' [];
          h' = (if origin \<noteq> [] then
                  headers_set ''Access-Control-Allow-Headers'' ''Content-Type, Authorization''
                    (headers_set ''Access-Control-Allow-Methods'' ''POST, OPTIONS''
                      (headers_set ''Access-Control-Allow-Origin'' origin h))
                else h)
      in \<lparr>status = st, headers = h', response_body = Some data\<rparr>)"

definition error_body :: "string \<Rightarrow> jsval" where
  "error_body msg = JObj [(''error'', JStr msg)]"

text \<open>\<^verbatim>\<open>data?.choices?.[0]?.message?.content || ''\<close>\<close>

definition message_content :: "jsval \<Rightarrow> jsval" where
  "message_content data =
     (let c = js_get (js_get (js_elem0 (js_get data ''choices'')) ''message'') ''content''
      in if truthy c then c else JStr [])"

text \<open>\<^verbatim>\<open>JSON.parse(content)\<close> inside a \<^verbatim>\<open>try\<close>: \<open>None\<close> when the conversion or the parser throws.\<close>

definition try_parse :: "platform \<Rightarrow> jsval \<Rightarrow> jsval option" where
  "try_parse P content =
     (case to_string content of Inl e \<Rightarrow> None | Inr s \<Rightarrow> JSON_parse P s)"

subsection \<open>generateQuestion\<close>

definition generate_system :: string where
  \<open>generate_system = join_with '' ''
     [''You are a New Zealand Year 10 Science tutor.'',
      ''Generate ONE Excellence-level (E) question appropriate for Year 10 difficulty.'',
      ''It must be strictly relevant to the given subject and topic constraints:'',
      ''- Physics: Electricity OR Forces & Motion'',
      ''- Chemistry: Acids & Bases OR Atomic Structure (exclude isotopes)'',
      ''- Biology: Genetics OR the Human Body (focus on 3 main systems)'',
      ''Output JSON of the shape: {"question":"..."} and ONLY that JSON.'']\<close>

definition generate_user :: "string \<Rightarrow> string \<Rightarrow> string" where
  "generate_user subject topic =
     ''Subject: '' @ subject @ ''\<newline>Topic: '' @ topic @
     ''\<newline>Constraints:\<newline>- Keep to Year 10 depth.'' @
     ''\<newline>- Create a single exam-style prompt that requires reasoning/worked steps.'' @
     ''\<newline>- Do not include the answer.'' @
     ''\<newline>- Avoid graph images; describe clearly if needed.''"

definition chat_request :: "string \<Rightarrow> string \<Rightarrow> string \<Rightarrow> string \<Rightarrow> fetch_request" where
  "chat_request temperature system user apiKey =
     \<lparr>fetch_url = ''https://api.openai.com/v1/chat/completions'',
      fetch_method = ''POST'',
      fetch_headers =
        [(''Authorization'', ''Bearer '' @ apiKey), (''Content-Type'', ''application/json'')],
      fetch_body =
        JObj [(''model'', JStr ''gpt-4o-mini''),
              (''temperature'', JNum temperature),
              (''response_format'', JObj [(''type'', JStr ''json_object'')]),
              (''messages'',
                 JArr [JObj [(''role'', JStr ''system''), (''content'', JStr system)],
                       JObj [(''role'', JStr ''user''), (''content'', JStr user)]])]\<rparr>"

definition generate_request :: "string \<Rightarrow> string \<Rightarrow> string \<Rightarrow> fetch_request" where
  "generate_request subject topic apiKey =
     chat_request ''0.7'' generate_system (generate_user subject topic) apiKey"

text \<open>
  Lines 74 to 78, from the provider's decoded reply on. In the \<^verbatim>\<open>catch\<close> branch
  \<^verbatim>\<open>content?.trim()\<close> is a call: on anything but a string it throws a \<^verbatim>\<open>TypeError\<close> (the
  message is the engine's).
\<close>

definition question_of_reply :: "platform \<Rightarrow> jsval \<Rightarrow> exn + jsval" where
  "question_of_reply P data =
     (let content = message_content data in
      case (case try_parse P content of
              Some v \<Rightarrow> Inr v
            | None \<Rightarrow>
                (case content of
                   JStr c \<Rightarrow> Inr (JObj [(''question'', JStr (trim c))])
                 | JUndefined \<Rightarrow> Inr (JObj [(''question'', JUndefined)])
                 | JNull \<Rightarrow> Inr (JObj [(''question'', JUndefined)])
                 | _ \<Rightarrow> Inl (Exn ''content?.trim is not a function''))) of
        Inl e \<Rightarrow> Inl e
      | Inr parsed \<Rightarrow>
          if \<not> truthy (js_get parsed ''question'')
          then Inl (Exn ''No question returned from model.'')
          else Inr (JObj [(''question'', js_get parsed ''question'')]))"

definition openai_error :: "nat \<Rightarrow> exn" where
  "openai_error st = Exn (''OpenAI error ('' @ string_of_nat st @ '')'')"

definition generateQuestion ::
  "platform \<Rightarrow> fetch \<Rightarrow> jsval \<Rightarrow> jsval \<Rightarrow> string \<Rightarrow> fetch_request list \<times> (exn + jsval)" where
  "generateQuestion P fetch subject topic apiKey =
     (case to_string subject of
        Inl e \<Rightarrow> ([], Inl e)
      | Inr s \<Rightarrow>
     (case to_string topic of
        Inl e \<Rightarrow> ([], Inl e)
      | Inr t \<Rightarrow>
     (let rq = generate_request s t apiKey in
      case fetch rq of
        Inl e \<Rightarrow> ([rq], Inl e)
      | Inr resp \<Rightarrow>
          if \<not> ok resp then ([rq], Inl (openai_error (resp_status resp)))
          else (case resp_json resp of
                  Inl e \<Rightarrow> ([rq], Inl e)
                | Inr data \<Rightarrow> ([rq], question_of_reply P data)))))"

subsection \<open>gradeAnswer\<close>

definition grade_system :: string where
  "grade_system = join_with '' ''
     [''You are a New Zealand Year 10 Science marker.'',
      ''Mark using NCEA-style bands (Not Achieved, Achieved, Merit, Excellence) and a score out of 8.'',
      ''Give specific feedback and an improved model answer appropriate for Year 10.'',
      ''Stay within the exact subject/topic constraints:'',
      ''- Physics: Electricity OR Forces & Motion'',
      ''- Chemistry: Acids & Bases OR Atomic Structure (exclude isotopes)'',
      ''- Biology: Genetics OR the Human Body (focus on 3 main systems).'',
      ''Respond ONLY as JSON with fields: grade_band, score, feedback, improved_answer.'']"

text \<open>The dash in the requirement on the score is U+2013 in the source, here in UTF-8.\<close>

definition grade_user :: "string \<Rightarrow> string \<Rightarrow> string \<Rightarrow> string \<Rightarrow> string" where
  "grade_user subject topic question answer = join_with ''\<newline>''
     [''Subject: '' @ subject,
      ''Topic: '' @ topic,
      ''Question: '' @ question,
      ''StudentAnswer: '' @ answer,
      ''Requirements:'',
      ''- Grade band must be one of Not Achieved, Achieved, Merit, Excellence.'',
      ''- Score is an integer 0'' @ [CHR 0xE2, CHR 0x80, CHR 0x93] @ ''8.'',
      ''- Feedback should be concise and actionable.'',
      ''- Improved answer should fully answer the question at Year 10 E-level.'']"

definition grade_request :: "string \<Rightarrow> string \<Rightarrow> string \<Rightarrow> string \<Rightarrow> string \<Rightarrow> fetch_request" where
  "grade_request subject topic question answer apiKey =
     chat_request ''0.3'' grade_system (grade_user subject topic question answer) apiKey"

text \<open>Lines 125 to 134, from the provider's decoded reply on.\<close>

definition grading_of_reply :: "platform \<Rightarrow> jsval \<Rightarrow> exn + jsval" where
  "grading_of_reply P data =
     (let content = message_content data in
      case try_parse P content of
        None \<Rightarrow> Inl (Exn ''Failed to parse grading JSON.'')
      | Some parsed \<Rightarrow>
          if \<not> truthy (js_get parsed ''grade_band'') \<or> js_get parsed ''score'' = JUndefined
          then Inl (Exn ''Incomplete grading response.'')
          else Inr (JObj
            [(''grade_band'', js_get parsed ''grade_band''),
             (''score'', js_get parsed ''score''),
             (''feedback'',
                if truthy (js_get parsed ''feedback'') then js_get parsed ''feedback'' else JStr []),
             (''improved_answer'',
                if truthy (js_get parsed ''improved_answer'') then js_get parsed ''improved_answer''
                else JStr [])]))"

definition gradeAnswer ::
  "platform \<Rightarrow> fetch \<Rightarrow> jsval \<Rightarrow> jsval \<Rightarrow> jsval \<Rightarrow> jsval \<Rightarrow> string
     \<Rightarrow> fetch_request list \<times> (exn + jsval)" where
  "gradeAnswer P fetch subject topic question answer apiKey =
     (case to_string subject of
        Inl e \<Rightarrow> ([], Inl e)
      | Inr s \<Rightarrow>
     (case to_string topic of
        Inl e \<Rightarrow> ([], Inl e)
      | Inr t \<Rightarrow>
     (case to_string question of
        Inl e \<Rightarrow> ([], Inl e)
      | Inr q \<Rightarrow>
     (case to_string answer of
        Inl e \<Rightarrow> ([], Inl e)
      | Inr a \<Rightarrow>
     (let rq = grade_request s t q a apiKey in
      case fetch rq of
        Inl e \<Rightarrow> ([rq], Inl e)
      | Inr resp \<Rightarrow>
          if \<not> ok resp then ([rq], Inl (openai_error (resp_status resp)))
          else (case resp_json resp of
                  Inl e \<Rightarrow> ([rq], Inl e)
                | Inr data \<Rightarrow> ([rq], grading_of_reply P data)))))))"

subsection \<open>The handlers\<close>

definition onRequestOptions :: "platform \<Rightarrow> request \<Rightarrow> response" where
  "onRequestOptions P req =
     (let origin = getCorsOrigin P req in
      \<lparr>status = 204,
       headers =
         [(''Access-Control-Allow-Origin'', origin),
          (''Access-Control-Allow-Methods'', ''POST, OPTIONS''),
          (''Access-Control-Allow-Headers'', ''Content-Type, Authorization'')],
       response_body = None\<rparr>)"

text \<open>
  The value of \<^verbatim>\<open>!ALLOWED[subject] || !ALLOWED[subject].includes(topic)\<close> (line 166). The
  subject becomes a property key by \<^verbatim>\<open>ToString\<close>, which can throw; on an inherited property
  \<^verbatim>\<open>.includes\<close> is \<^verbatim>\<open>undefined\<close> and the call throws a \<^verbatim>\<open>TypeError\<close> (the message is the
  engine's).
\<close>

definition selection_rejected :: "jsval \<Rightarrow> jsval \<Rightarrow> exn + bool" where
  "selection_rejected subject topic =
     (case to_string subject of
        Inl e \<Rightarrow> Inl e
      | Inr k \<Rightarrow>
          (case ALLOWED_get k of
             Missing \<Rightarrow> Inr True
           | Inherited \<Rightarrow> Inl (Exn ''ALLOWED[subject].includes is not a function'')
           | Topics ts \<Rightarrow> Inr (\<not> array_includes ts topic)))"

text \<open>The body of the \<^verbatim>\<open>try\<close> block (lines 171 to 183); \<open>Inl\<close> is what it throws.\<close>

definition dispatch ::
  "platform \<Rightarrow> fetch \<Rightarrow> string \<Rightarrow> string \<Rightarrow> jsval \<Rightarrow> fetch_request list \<times> (exn + response)" where
  "dispatch P fetch apiKey origin body =
     (let action = js_get body ''action'';
          subject = js_get body ''subject'';
          topic = js_get body ''topic'' in
      if action = JStr ''generate'' then
        (case generateQuestion P fetch subject topic apiKey of
           (calls, Inl e) \<Rightarrow> (calls, Inl e)
         | (calls, Inr result) \<Rightarrow> (calls, Inr (jsonResponse result 200 origin)))
      else if action = JStr ''grade'' then
        (let question = js_get body ''question'';
             answer = js_get body ''answer'' in
         if \<not> truthy question \<or> \<not> truthy answer
         then ([], Inr (jsonResponse (error_body ''Missing question or answer for grading.'') 400 origin))
         else
           (case gradeAnswer P fetch subject topic question answer apiKey of
              (calls, Inl e) \<Rightarrow> (calls, Inl e)
            | (calls, Inr result) \<Rightarrow> (calls, Inr (jsonResponse result 200 origin))))
      else ([], Inr (jsonResponse (error_body ''Unknown action.'') 400 origin)))"

text \<open>
  \<^verbatim>\<open>onRequestPost\<close>. \<open>Inl\<close> in the result is an exception that leaves the handler: the check
  of line 166 stands before the \<^verbatim>\<open>try\<close> block.
\<close>

definition onRequestPost ::
  "platform \<Rightarrow> fetch \<Rightarrow> env \<Rightarrow> request \<Rightarrow> fetch_request list \<times> (exn + response)" where
  "onRequestPost P fetch e req =
     (let origin = getCorsOrigin P req in
      case OPENAI_API_KEY e of
        None \<Rightarrow>
          ([], Inr (jsonResponse (error_body ''Server not configured: OPENAI_API_KEY missing.'') 500 origin))
      | Some apiKey \<Rightarrow>
      if apiKey = []
      then ([], Inr (jsonResponse (error_body ''Server not configured: OPENAI_API_KEY missing.'') 500 origin))
      else
      (case request_json req of
         None \<Rightarrow> ([], Inr (jsonResponse (error_body ''Invalid JSON body.'') 400 origin))
       | Some parsed_body \<Rightarrow>
      (let body = (if truthy parsed_body then parsed_body else JObj []);
           action = js_get body ''action'';
           subject = js_get body ''subject'';
           topic = js_get body ''topic'' in
       if \<not> truthy action \<or> \<not> truthy subject \<or> \<not> truthy topic
       then ([], Inr (jsonResponse
               (error_body ''Missing required fields: action, subject, topic.'') 400 origin))
       else
       (case selection_rejected subject topic of
          Inl ex \<Rightarrow> ([], Inl ex)
        | Inr True \<Rightarrow> ([], Inr (jsonResponse (error_body ''Invalid subject/topic selection.'') 400 origin))
        | Inr False \<Rightarrow>
            (case dispatch P fetch apiKey origin body of
               (calls, Inl ex) \<Rightarrow>
                 (calls, Inr (jsonResponse
                    (error_body (if message ex \<noteq> [] then message ex else ''Internal error.''))
                    500 origin))
             | (calls, Inr r) \<Rightarrow> (calls, Inr r))))))"

section \<open>The allow-list as a relation, and example inputs\<close>

text \<open>The pairs of the allow-list table: the subject is a key and the topic is in its list.\<close>

definition in_allow_list :: "string \<Rightarrow> string \<Rightarrow> bool" where
  "in_allow_list s t = (case map_of ALLOWED s of Some ts \<Rightarrow> t \<in> set ts | None \<Rightarrow> False)"

text \<open>
  A platform for the examples. Its \<^verbatim>\<open>JSON.parse\<close> and \<^verbatim>\<open>URL\<close> answer as the real ones do on
  the inputs the examples use, and are not meant for any other input.
\<close>

definition example_JSON_parse :: "string \<Rightarrow> jsval option" where
  \<open>example_JSON_parse s =
     (if s = ''{"question":"Q"}'' then Some (JObj [(''question'', JStr ''Q'')])
      else if s = ''{"question":""}'' then Some (JObj [(''question'', JStr [])])
      else if s = ''{"grade_band":"Merit"}'' then Some (JObj [(''grade_band'', JStr ''Merit'')])
      else if s = ''{"grade_band":"Merit","score":0}''
        then Some (JObj [(''grade_band'', JStr ''Merit''), (''score'', JNum ''0'')])
      else if s = ''{"grade_band":"","score":5}''
        then Some (JObj [(''grade_band'', JStr []), (''score'', JNum ''5'')])
      else None)\<close>

definition example_new_URL :: "string \<Rightarrow> url option" where
  "example_new_URL s =
     (if s = ''http://localhost:3000''
        then Some \<lparr>protocol = ''http:'', hostname = ''localhost'', port = ''3000''\<rparr>
      else if s = ''http://evil.example''
        then Some \<lparr>protocol = ''http:'', hostname = ''evil.example'', port = []\<rparr>
      else None)"

definition example_platform :: platform where
  "example_platform = \<lparr>JSON_parse = example_JSON_parse, new_URL = example_new_URL\<rparr>"

definition example_env :: env where
  "example_env = \<lparr>OPENAI_API_KEY = Some ''sk-test''\<rparr>"

text \<open>The decoded reply of the provider whose message content is \<open>c\<close>.\<close>

definition completion :: "string \<Rightarrow> jsval" where
  "completion c =
     JObj [(''choices'',
       JArr [JObj [(''message'', JObj [(''role'', JStr ''assistant''), (''content'', JStr c)])]])]"

text \<open>Providers: one that answers every call with the same decoded reply, one that answers
  with an error status, one that cannot be reached.\<close>

definition provider_replying :: "jsval \<Rightarrow> fetch" where
  "provider_replying data rq = Inr \<lparr>ok = True, resp_status = 200, resp_json = Inr data\<rparr>"

definition provider_refusing :: "nat \<Rightarrow> fetch" where
  "provider_refusing st rq = Inr \<lparr>ok = False, resp_status = st, resp_json = Inr JNull\<rparr>"

definition provider_unreachable :: "exn \<Rightarrow> fetch" where
  "provider_unreachable ex rq = Inl ex"

definition generate_body :: "string \<Rightarrow> string \<Rightarrow> jsval" where
  "generate_body s t =
     JObj [(''action'', JStr ''generate''), (''subject'', JStr s), (''topic'', JStr t)]"

definition grade_body :: "string \<Rightarrow> string \<Rightarrow> (string \<times> jsval) list \<Rightarrow> jsval" where
  "grade_body s t rest =
     JObj ([(''action'', JStr ''grade''), (''subject'', JStr s), (''topic'', JStr t)] @ rest)"

definition post :: "string option \<Rightarrow> jsval \<Rightarrow> request" where
  "post origin b = \<lparr>header_Origin = origin, request_json = Some b\<rparr>"

definition example_answers :: "(string \<times> jsval) list" where
  "example_answers =
     [(''question'', JStr ''What is voltage?''), (''answer'', JStr ''Energy per charge.'')]"

section \<open>Basic facts\<close>

lemma in_allow_list_iff:
  "in_allow_list s t \<longleftrightarrow>
     s = ''Physics'' \<and> (t = ''Electricity'' \<or> t = ''Forces & Motion'') \<or>
     s = ''Chemistry'' \<and> (t = ''Acids & Bases'' \<or> t = ''Atomic Structure'') \<or>
     s = ''Biology'' \<and> (t = ''Genetics'' \<or> t = ''Human Body (3 Main Systems)'')"
  by (auto simp: in_allow_list_def ALLOWED_def)

lemma in_allow_list_nonempty: "in_allow_list s t \<Longrightarrow> s \<noteq> [] \<and> t \<noteq> []"
  by (auto simp: in_allow_list_iff)

lemma selection_accepted:
  "in_allow_list s t \<Longrightarrow> selection_rejected (JStr s) (JStr t) = Inr False"
  by (auto simp: in_allow_list_def selection_rejected_def ALLOWED_get_def split: option.splits)

lemma truthy_js_get: "truthy (js_get b k) \<Longrightarrow> truthy b"
  by (cases b) simp_all

lemma getCorsOrigin_nonempty: "getCorsOrigin P req \<noteq> []"
  by (auto simp: getCorsOrigin_def Let_def canonical_origin_def allowed_origins_def
      split: option.splits)

lemma jsonResponse_status [simp]: "status (jsonResponse d st origin) = st"
  by (simp add: jsonResponse_def Let_def)

lemma jsonResponse_body [simp]: "response_body (jsonResponse d st origin) = Some d"
  by (simp add: jsonResponse_def Let_def)

lemma jsonResponse_origin:
  "origin \<noteq> [] \<Longrightarrow>
     map_of (headers (jsonResponse d st origin)) ''Access-Control-Allow-Origin'' = Some origin"
  by (simp add: jsonResponse_def Let_def)

text \<open>Past the validation, the handler's answer is the one of the \<^verbatim>\<open>try\<close> block, with a thrown
  exception turned into a 500 response.\<close>

lemma post_dispatch:
  assumes "OPENAI_API_KEY e = Some apiKey" and "apiKey \<noteq> []"
    and "request_json req = Some b"
    and "truthy (js_get b ''action'')" and "truthy (js_get b ''subject'')"
    and "truthy (js_get b ''topic'')"
    and "selection_rejected (js_get b ''subject'') (js_get b ''topic'') = Inr False"
  shows "onRequestPost P fetch e req =
    (case dispatch P fetch apiKey (getCorsOrigin P req) b of
       (calls, Inl ex) \<Rightarrow>
         (calls, Inr (jsonResponse
            (error_body (if message ex \<noteq> [] then message ex else ''Internal error.''))
            500 (getCorsOrigin P req)))
     | (calls, Inr r) \<Rightarrow> (calls, Inr r))"
proof -
  from assms(4) have "truthy b"
    by (rule truthy_js_get)
  with assms show ?thesis
    by (simp add: onRequestPost_def Let_def)
qed

lemma try_parse_string [simp]: "try_parse P (JStr c) = JSON_parse P c"
  by (simp add: try_parse_def)

lemma example_platform_simps [simp]:
  "JSON_parse example_platform = example_JSON_parse"
  "new_URL example_platform = example_new_URL"
  by (simp_all add: example_platform_def)

lemma example_env_key [simp]: "OPENAI_API_KEY example_env = Some ''sk-test''"
  by (simp add: example_env_def)

lemma post_simps [simp]:
  "request_json (post origin b) = Some b"
  "header_Origin (post origin b) = origin"
  by (simp_all add: post_def)

lemma message_content_completion [simp]: "message_content (completion c) = JStr c"
  by (simp add: message_content_def completion_def)

lemma example_origin_none [simp]:
  "getCorsOrigin example_platform (post None b) = ''https://artinamr.xyz''"
  by (simp add: getCorsOrigin_def example_new_URL_def canonical_origin_def)

lemma generate_body_fields [simp]:
  "js_get (generate_body s t) ''action'' = JStr ''generate''"
  "js_get (generate_body s t) ''subject'' = JStr s"
  "js_get (generate_body s t) ''topic'' = JStr t"
  by (simp_all add: generate_body_def)

lemma grade_body_fields [simp]:
  "js_get (grade_body s t example_answers) ''question'' = JStr ''What is voltage?''"
  "js_get (grade_body s t example_answers) ''answer'' = JStr ''Energy per charge.''"
  "js_get (grade_body s t rest) ''action'' = JStr ''grade''"
  "js_get (grade_body s t rest) ''subject'' = JStr s"
  "js_get (grade_body s t rest) ''topic'' = JStr t"
  by (simp_all add: grade_body_def example_answers_def)

lemma js_get_absent: "map_of kvs k = None \<Longrightarrow> js_get (JObj kvs) k = JUndefined"
  by simp

text \<open>A valid \<^verbatim>\<open>generate\<close> request that the provider answers with a decodable reply.\<close>

lemma post_generate:
  assumes "OPENAI_API_KEY e = Some apiKey" and "apiKey \<noteq> []"
    and "request_json req = Some b"
    and "js_get b ''action'' = JStr ''generate''"
    and "js_get b ''subject'' = JStr s" and "js_get b ''topic'' = JStr t"
    and "in_allow_list s t"
    and "fetch (generate_request s t apiKey) = Inr resp" and "ok resp"
    and "resp_json resp = Inr data"
  shows "onRequestPost P fetch e req =
    ([generate_request s t apiKey],
     Inr (case question_of_reply P data of
            Inl ex \<Rightarrow>
              jsonResponse
                (error_body (if message ex \<noteq> [] then message ex else ''Internal error.''))
                500 (getCorsOrigin P req)
          | Inr result \<Rightarrow> jsonResponse result 200 (getCorsOrigin P req)))"
proof -
  have d: "dispatch P fetch apiKey (getCorsOrigin P req) b =
      ([generate_request s t apiKey],
       case question_of_reply P data of
         Inl ex \<Rightarrow> Inl ex
       | Inr result \<Rightarrow> Inr (jsonResponse result 200 (getCorsOrigin P req)))"
    using assms(4-6,8-10)
    by (simp add: dispatch_def generateQuestion_def Let_def split: sum.splits)
  have "onRequestPost P fetch e req =
    (case dispatch P fetch apiKey (getCorsOrigin P req) b of
       (calls, Inl ex) \<Rightarrow>
         (calls, Inr (jsonResponse
            (error_body (if message ex \<noteq> [] then message ex else ''Internal error.''))
            500 (getCorsOrigin P req)))
     | (calls, Inr r) \<Rightarrow> (calls, Inr r))"
    using assms(1-7) in_allow_list_nonempty [OF assms(7)] selection_accepted [OF assms(7)]
    by (intro post_dispatch) simp_all
  then show ?thesis
    by (simp add: d split: sum.splits)
qed

text \<open>A valid \<^verbatim>\<open>grade\<close> request, with a question and an answer that convert to strings, that
  the provider answers with a decodable reply.\<close>

lemma post_grade:
  assumes "OPENAI_API_KEY e = Some apiKey" and "apiKey \<noteq> []"
    and "request_json req = Some b"
    and "js_get b ''action'' = JStr ''grade''"
    and "js_get b ''subject'' = JStr s" and "js_get b ''topic'' = JStr t"
    and "in_allow_list s t"
    and "truthy (js_get b ''question'')" and "to_string (js_get b ''question'') = Inr q"
    and "truthy (js_get b ''answer'')" and "to_string (js_get b ''answer'') = Inr a"
    and "fetch (grade_request s t q a apiKey) = Inr resp" and "ok resp"
    and "resp_json resp = Inr data"
  shows "onRequestPost P fetch e req =
    ([grade_request s t q a apiKey],
     Inr (case grading_of_reply P data of
            Inl ex \<Rightarrow>
              jsonResponse
                (error_body (if message ex \<noteq> [] then message ex else ''Internal error.''))
                500 (getCorsOrigin P req)
          | Inr result \<Rightarrow> jsonResponse result 200 (getCorsOrigin P req)))"
proof -
  have d: "dispatch P fetch apiKey (getCorsOrigin P req) b =
      ([grade_request s t q a apiKey],
       case grading_of_reply P data of
         Inl ex \<Rightarrow> Inl ex
       | Inr result \<Rightarrow> Inr (jsonResponse result 200 (getCorsOrigin P req)))"
    using assms(4-6,8-14)
    by (simp add: dispatch_def gradeAnswer_def Let_def split: sum.splits)
  have "onRequestPost P fetch e req =
    (case dispatch P fetch apiKey (getCorsOrigin P req) b of
       (calls, Inl ex) \<Rightarrow>
         (calls, Inr (jsonResponse
            (error_body (if message ex \<noteq> [] then message ex else ''Internal error.''))
            500 (getCorsOrigin P req)))
     | (calls, Inr r) \<Rightarrow> (calls, Inr r))"
    using assms(1-7) in_allow_list_nonempty [OF assms(7)] selection_accepted [OF assms(7)]
    by (intro post_dispatch) simp_all
  then show ?thesis
    by (simp add: d split: sum.splits)
qed

text \<open>Each of the six pairs of the allow-list, with a provider whose reply is
  \<^verbatim>\<open>{"question":"Q"}\<close>, is answered with status 200 and that question.\<close>

lemma generate_happy_path:
  assumes "in_allow_list s t"
  shows \<open>onRequestPost example_platform (provider_replying (completion ''{"question":"Q"}''))
      example_env (post origin (generate_body s t)) =
    ([generate_request s t ''sk-test''],
     Inr (jsonResponse (JObj [(''question'', JStr ''Q'')]) 200
            (getCorsOrigin example_platform (post origin (generate_body s t)))))\<close>
  using assms post_generate
      [where e = example_env and apiKey = "''sk-test''"
         and req = "post origin (generate_body s t)" and b = "generate_body s t"
         and s = s and t = t
         and fetch = \<open>provider_replying (completion ''{"question":"Q"}'')\<close>
         and resp = \<open>\<lparr>ok = True, resp_status = 200,
                       resp_json = Inr (completion ''{"question":"Q"}'')\<rparr>\<close>
         and data = \<open>completion ''{"question":"Q"}''\<close>
         and P = example_platform]
  by (simp add: provider_replying_def question_of_reply_def example_JSON_parse_def)

section \<open>The allow-list check (C1)\<close>

text \<open>
  A subject and topic that are non-empty strings, do not form a pair of the allow-list, and
  where the subject is not a name that \<^verbatim>\<open>ALLOWED\<close> inherits, are answered with 400 and no
  provider call.
\<close>

lemma invalid_selection_400:
  assumes "OPENAI_API_KEY e = Some apiKey" and "apiKey \<noteq> []"
    and "request_json req = Some b"
    and "truthy (js_get b ''action'')"
    and "js_get b ''subject'' = JStr s" and "s \<noteq> []"
    and "js_get b ''topic'' = JStr t" and "t \<noteq> []"
    and "\<not> in_allow_list s t" and "s \<notin> set Object_prototype_names"
  shows "onRequestPost P fetch e req =
    ([], Inr (jsonResponse (error_body ''Invalid subject/topic selection.'') 400
                (getCorsOrigin P req)))"
proof -
  from assms(4) have "truthy b"
    by (rule truthy_js_get)
  moreover from assms(9,10) have "selection_rejected (JStr s) (JStr t) = Inr True"
    by (auto simp: selection_rejected_def ALLOWED_get_def in_allow_list_def split: option.splits)
  ultimately show ?thesis
    using assms(1-8) by (simp add: onRequestPost_def Let_def)
qed

text \<open>
  C1 claims that every request with non-empty \<^verbatim>\<open>action\<close>, \<^verbatim>\<open>subject\<close> and \<^verbatim>\<open>topic\<close> whose
  subject is not a key of the allow-list is answered with status 400 and the error
  \<^verbatim>\<open>Invalid subject/topic selection.\<close>. A subject that names a property inherited from
  \<^verbatim>\<open>Object.prototype\<close>, as in
  \<^verbatim>\<open>{"action":"generate","subject":"constructor","topic":"Electricity"}\<close>, is not a key of the
  allow-list, and the handler does not answer such a request: \<^verbatim>\<open>ALLOWED[subject]\<close> is
  truthy and has no \<^verbatim>\<open>includes\<close>, so line 166 throws a \<^verbatim>\<open>TypeError\<close> before the \<^verbatim>\<open>try\<close> block
  is entered. No provider call is made, and no response is built.
\<close>

theorem inherited_subject_throws:
  assumes "OPENAI_API_KEY e = Some apiKey" and "apiKey \<noteq> []"
    and "request_json req = Some b"
    and "truthy (js_get b ''action'')"
    and "js_get b ''subject'' = JStr s" and "s \<in> set Object_prototype_names"
    and "truthy (js_get b ''topic'')"
  shows "(\<forall>t. \<not> in_allow_list s t) \<and>
    onRequestPost P fetch e req =
      ([], Inl (Exn ''ALLOWED[subject].includes is not a function''))"
proof -
  from assms(6) have s: "s \<noteq> []" "map_of ALLOWED s = None"
    by (auto simp: Object_prototype_names_def ALLOWED_def)
  with assms(6) have "selection_rejected (JStr s) (js_get b ''topic'') =
      Inl (Exn ''ALLOWED[subject].includes is not a function'')"
    by (simp add: selection_rejected_def ALLOWED_get_def)
  moreover from assms(4) have "truthy b"
    by (rule truthy_js_get)
  ultimately have "onRequestPost P fetch e req =
      ([], Inl (Exn ''ALLOWED[subject].includes is not a function''))"
    using assms(1-5,7) s(1) by (simp add: onRequestPost_def Let_def)
  with s(2) show ?thesis
    by (simp add: in_allow_list_def)
qed

theorem inherited_subject_throws_witness:
  "''constructor'' \<in> set Object_prototype_names \<and>
   \<not> in_allow_list ''constructor'' ''Electricity'' \<and>
   onRequestPost example_platform (provider_replying (completion ''Q'')) example_env
       (post None (generate_body ''constructor'' ''Electricity'')) =
     ([], Inl (Exn ''ALLOWED[subject].includes is not a function''))"
  using inherited_subject_throws
    [where e = example_env and apiKey = "''sk-test''"
       and req = "post None (generate_body ''constructor'' ''Electricity'')"
       and b = "generate_body ''constructor'' ''Electricity''" and s = "''constructor''"
       and P = example_platform and fetch = "provider_replying (completion ''Q'')"]
  by (simp add: Object_prototype_names_def)

section \<open>The missing credential (C6)\<close>

text \<open>
  C6: when \<^verbatim>\<open>OPENAI_API_KEY\<close> is absent from the environment, every POST request is answered
  with status 500 and the error \<^verbatim>\<open>Server not configured: OPENAI_API_KEY missing.\<close>, whatever
  the request is: its body is not read, no field is validated, no provider call is made.
\<close>

theorem missing_credential_500:
  assumes "OPENAI_API_KEY e = None"
  shows "onRequestPost P fetch e req =
    ([], Inr (jsonResponse (error_body ''Server not configured: OPENAI_API_KEY missing.'') 500
                (getCorsOrigin P req)))"
  using assms by (simp add: onRequestPost_def Let_def)

text \<open>The request of the witness has a body that is not JSON.\<close>

theorem missing_credential_500_witness:
  "OPENAI_API_KEY \<lparr>OPENAI_API_KEY = None\<rparr> = None \<and>
   request_json \<lparr>header_Origin = None, request_json = None\<rparr> = None \<and>
   onRequestPost example_platform (provider_replying (completion ''Q'')) \<lparr>OPENAI_API_KEY = None\<rparr>
       \<lparr>header_Origin = None, request_json = None\<rparr> =
     ([], Inr \<lparr>status = 500,
               headers =
                 [(''Content-Type'', ''application/json''),
                  (''Access-Control-Allow-Origin'', ''https://artinamr.xyz''),
                  (''Access-Control-Allow-Methods'', ''POST, OPTIONS''),
                  (''Access-Control-Allow-Headers'', ''Content-Type, Authorization'')],
               response_body =
                 Some (JObj [(''error'', JStr ''Server not configured: OPENAI_API_KEY missing.'')])\<rparr>)"
  using missing_credential_500 [of "\<lparr>OPENAI_API_KEY = None\<rparr>" example_platform
      "provider_replying (completion ''Q'')" "\<lparr>header_Origin = None, request_json = None\<rparr>"]
  by (simp add: jsonResponse_def error_body_def getCorsOrigin_def example_new_URL_def
      canonical_origin_def)

section \<open>Grading needs a question and an answer (C7)\<close>

text \<open>
  C7: a POST request with action \<^verbatim>\<open>grade\<close> and a subject and topic of the allow-list, whose
  body lacks the field \<^verbatim>\<open>question\<close> or the field \<^verbatim>\<open>answer\<close>, is answered with status 400 and
  the error \<^verbatim>\<open>Missing question or answer for grading.\<close>, and no provider call is made.
\<close>

theorem grade_missing_field_400:
  assumes "OPENAI_API_KEY e = Some apiKey" and "apiKey \<noteq> []"
    and "request_json req = Some b"
    and "js_get b ''action'' = JStr ''grade''"
    and "js_get b ''subject'' = JStr s" and "js_get b ''topic'' = JStr t"
    and "in_allow_list s t"
    and "js_get b ''question'' = JUndefined \<or> js_get b ''answer'' = JUndefined"
  shows "onRequestPost P fetch e req =
    ([], Inr (jsonResponse (error_body ''Missing question or answer for grading.'') 400
                (getCorsOrigin P req)))"
proof -
  have d: "dispatch P fetch apiKey (getCorsOrigin P req) b =
      ([], Inr (jsonResponse (error_body ''Missing question or answer for grading.'') 400
                  (getCorsOrigin P req)))"
    using assms(4,8) by (auto simp: dispatch_def Let_def)
  have "onRequestPost P fetch e req =
    (case dispatch P fetch apiKey (getCorsOrigin P req) b of
       (calls, Inl ex) \<Rightarrow>
         (calls, Inr (jsonResponse
            (error_body (if message ex \<noteq> [] then message ex else ''Internal error.''))
            500 (getCorsOrigin P req)))
     | (calls, Inr r) \<Rightarrow> (calls, Inr r))"
    using assms(1-7) in_allow_list_nonempty [OF assms(7)] selection_accepted [OF assms(7)]
    by (intro post_dispatch) simp_all
  then show ?thesis
    by (simp add: d)
qed

text \<open>The request of the witness has a valid subject, topic and question, and no answer.\<close>

theorem grade_missing_field_400_witness:
  "OPENAI_API_KEY example_env = Some ''sk-test'' \<and>
   in_allow_list ''Physics'' ''Electricity'' \<and>
   js_get (grade_body ''Physics'' ''Electricity'' [(''question'', JStr ''What is voltage?'')])
     ''answer'' = JUndefined \<and>
   onRequestPost example_platform (provider_replying (completion ''Q'')) example_env
       (post None
          (grade_body ''Physics'' ''Electricity'' [(''question'', JStr ''What is voltage?'')])) =
     ([], Inr (jsonResponse (error_body ''Missing question or answer for grading.'') 400
                 ''https://artinamr.xyz''))"
  using grade_missing_field_400
    [where e = example_env and apiKey = "''sk-test''"
       and req = "post None
          (grade_body ''Physics'' ''Electricity'' [(''question'', JStr ''What is voltage?'')])"
       and b = "grade_body ''Physics'' ''Electricity'' [(''question'', JStr ''What is voltage?'')]"
       and s = "''Physics''" and t = "''Electricity''"
       and fetch = "provider_replying (completion ''Q'')" and P = example_platform]
  by (simp add: grade_body_def in_allow_list_iff)

section \<open>The fallback of the generate path (C2)\<close>

text \<open>
  C2 claims that a valid \<^verbatim>\<open>generate\<close> request whose provider reply has a message content
  that does not parse as JSON is always answered with status 200 and the trimmed content as
  the question. The code does so when the trimmed content is not empty, as for the content
  \<^verbatim>\<open>What is voltage?\<close>; when nothing is left after trimming, the guard of line 77 rejects
  the empty question and the answer is status 500 with the error
  \<^verbatim>\<open>No question returned from model.\<close>.
\<close>

theorem generate_fallback_on_unparseable_content:
  assumes "OPENAI_API_KEY e = Some apiKey" and "apiKey \<noteq> []"
    and "request_json req = Some b"
    and "js_get b ''action'' = JStr ''generate''"
    and "js_get b ''subject'' = JStr s" and "js_get b ''topic'' = JStr t"
    and "in_allow_list s t"
    and "fetch (generate_request s t apiKey) = Inr resp" and "ok resp"
    and "resp_json resp = Inr data"
    and "message_content data = JStr c" and "JSON_parse P c = None"
  shows "onRequestPost P fetch e req =
    ([generate_request s t apiKey],
     Inr (if trim c \<noteq> []
          then jsonResponse (JObj [(''question'', JStr (trim c))]) 200 (getCorsOrigin P req)
          else jsonResponse (error_body ''No question returned from model.'') 500
                 (getCorsOrigin P req)))"
proof -
  have "onRequestPost P fetch e req =
    ([generate_request s t apiKey],
     Inr (case question_of_reply P data of
            Inl ex \<Rightarrow>
              jsonResponse
                (error_body (if message ex \<noteq> [] then message ex else ''Internal error.''))
                500 (getCorsOrigin P req)
          | Inr result \<Rightarrow> jsonResponse result 200 (getCorsOrigin P req)))"
    using assms(1-10) by (rule post_generate)
  with assms(11,12) show ?thesis
    by (simp add: question_of_reply_def)
qed

theorem generate_fallback_on_unparseable_content_witness:
  "OPENAI_API_KEY example_env = Some ''sk-test'' \<and>
   in_allow_list ''Physics'' ''Electricity'' \<and>
   JSON_parse example_platform ''What is voltage?'' = None \<and>
   onRequestPost example_platform (provider_replying (completion ''What is voltage?'')) example_env
       (post None (generate_body ''Physics'' ''Electricity'')) =
     ([generate_request ''Physics'' ''Electricity'' ''sk-test''],
      Inr (jsonResponse (JObj [(''question'', JStr ''What is voltage?'')]) 200
             ''https://artinamr.xyz''))"
proof -
  have "trim ''What is voltage?'' = ''What is voltage?''"
    by code_simp
  then show ?thesis
    using generate_fallback_on_unparseable_content
      [where e = example_env and apiKey = "''sk-test''"
         and req = "post None (generate_body ''Physics'' ''Electricity'')"
         and b = "generate_body ''Physics'' ''Electricity''"
         and s = "''Physics''" and t = "''Electricity''"
         and fetch = "provider_replying (completion ''What is voltage?'')"
         and resp = "\<lparr>ok = True, resp_status = 200,
                       resp_json = Inr (completion ''What is voltage?'')\<rparr>"
         and data = "completion ''What is voltage?''" and c = "''What is voltage?''"
         and P = example_platform]
    by (simp add: generate_body_def in_allow_list_iff provider_replying_def
        example_JSON_parse_def)
qed

text \<open>A reply whose content is three spaces: not JSON, and empty once trimmed.\<close>

theorem blank_content_no_question_counterexample:
  "JSON_parse example_platform ''   '' = None \<and>
   onRequestPost example_platform (provider_replying (completion ''   '')) example_env
       (post None (generate_body ''Physics'' ''Electricity'')) =
     ([generate_request ''Physics'' ''Electricity'' ''sk-test''],
      Inr (jsonResponse (error_body ''No question returned from model.'') 500
             ''https://artinamr.xyz'')) \<and>
   status (jsonResponse (error_body ''No question returned from model.'') 500
             ''https://artinamr.xyz'') \<noteq> 200"
proof -
  have "trim ''   '' = []"
    by code_simp
  then show ?thesis
    by (simp add: onRequestPost_def dispatch_def generateQuestion_def question_of_reply_def
        Let_def generate_body_def selection_rejected_def ALLOWED_get_def ALLOWED_def
        provider_replying_def example_JSON_parse_def)
qed

section \<open>An empty question is no question (C10)\<close>

text \<open>
  C10: in the generate path the question is tested for truthiness, not for presence. A
  provider reply whose content parses to \<^verbatim>\<open>{"question": ""}\<close> raises
  \<^verbatim>\<open>No question returned from model.\<close> and is answered with status 500; so is a reply whose
  content is the empty string, which does not parse and leaves an empty question after
  trimming.
\<close>

theorem generate_empty_question_rejected:
  assumes "OPENAI_API_KEY e = Some apiKey" and "apiKey \<noteq> []"
    and "request_json req = Some b"
    and "js_get b ''action'' = JStr ''generate''"
    and "js_get b ''subject'' = JStr s" and "js_get b ''topic'' = JStr t"
    and "in_allow_list s t"
    and "fetch (generate_request s t apiKey) = Inr resp" and "ok resp"
    and "resp_json resp = Inr data"
  shows
    "(try_parse P (message_content data) = Some (JObj [(''question'', JStr [])]) \<longrightarrow>
      onRequestPost P fetch e req =
        ([generate_request s t apiKey],
         Inr (jsonResponse (error_body ''No question returned from model.'') 500
                (getCorsOrigin P req)))) \<and>
     (message_content data = JStr [] \<longrightarrow> JSON_parse P [] = None \<longrightarrow>
      onRequestPost P fetch e req =
        ([generate_request s t apiKey],
         Inr (jsonResponse (error_body ''No question returned from model.'') 500
                (getCorsOrigin P req))))"
proof -
  have "onRequestPost P fetch e req =
    ([generate_request s t apiKey],
     Inr (case question_of_reply P data of
            Inl ex \<Rightarrow>
              jsonResponse
                (error_body (if message ex \<noteq> [] then message ex else ''Internal error.''))
                500 (getCorsOrigin P req)
          | Inr result \<Rightarrow> jsonResponse result 200 (getCorsOrigin P req)))"
    using assms(1-10) by (rule post_generate)
  moreover have "trim [] = []"
    by code_simp
  ultimately show ?thesis
    by (simp add: question_of_reply_def)
qed

theorem generate_empty_question_rejected_witness:
  \<open>in_allow_list ''Biology'' ''Genetics'' \<and>
   try_parse example_platform (message_content (completion ''{"question":""}'')) =
     Some (JObj [(''question'', JStr [])]) \<and>
   onRequestPost example_platform (provider_replying (completion ''{"question":""}''))
       example_env (post None (generate_body ''Biology'' ''Genetics'')) =
     ([generate_request ''Biology'' ''Genetics'' ''sk-test''],
      Inr (jsonResponse (error_body ''No question returned from model.'') 500
             ''https://artinamr.xyz'')) \<and>
   message_content (completion []) = JStr [] \<and>
   JSON_parse example_platform [] = None \<and>
   onRequestPost example_platform (provider_replying (completion []))
       example_env (post None (generate_body ''Biology'' ''Genetics'')) =
     ([generate_request ''Biology'' ''Genetics'' ''sk-test''],
      Inr (jsonResponse (error_body ''No question returned from model.'') 500
             ''https://artinamr.xyz''))\<close>
  using generate_empty_question_rejected
      [where e = example_env and apiKey = "''sk-test''"
         and req = "post None (generate_body ''Biology'' ''Genetics'')"
         and b = "generate_body ''Biology'' ''Genetics''"
         and s = "''Biology''" and t = "''Genetics''"
         and fetch = \<open>provider_replying (completion ''{"question":""}'')\<close>
         and resp = \<open>\<lparr>ok = True, resp_status = 200,
                       resp_json = Inr (completion ''{"question":""}'')\<rparr>\<close>
         and data = \<open>completion ''{"question":""}''\<close>
         and P = example_platform]
    generate_empty_question_rejected
      [where e = example_env and apiKey = "''sk-test''"
         and req = "post None (generate_body ''Biology'' ''Genetics'')"
         and b = "generate_body ''Biology'' ''Genetics''"
         and s = "''Biology''" and t = "''Genetics''"
         and fetch = \<open>provider_replying (completion [])\<close>
         and resp = \<open>\<lparr>ok = True, resp_status = 200, resp_json = Inr (completion [])\<rparr>\<close>
         and data = \<open>completion []\<close>
         and P = example_platform]
  by (simp add: in_allow_list_iff provider_replying_def example_JSON_parse_def)

section \<open>Grading has no fallback (C3)\<close>

text \<open>
  C3: a \<^verbatim>\<open>grade\<close> request with a valid subject and topic, a question and an answer, whose
  provider reply has a message content that does not parse as JSON, is answered with status
  500 and the error \<^verbatim>\<open>Failed to parse grading JSON.\<close>. The generate path, on the same reply
  with a string content, takes the trimmed content as the question instead of failing on
  the parse.
\<close>

theorem grade_hard_fails_on_unparseable_content:
  assumes "OPENAI_API_KEY e = Some apiKey" and "apiKey \<noteq> []"
    and "request_json req = Some b"
    and "js_get b ''action'' = JStr ''grade''"
    and "js_get b ''subject'' = JStr s" and "js_get b ''topic'' = JStr t"
    and "in_allow_list s t"
    and "truthy (js_get b ''question'')" and "to_string (js_get b ''question'') = Inr q"
    and "truthy (js_get b ''answer'')" and "to_string (js_get b ''answer'') = Inr a"
    and "fetch (grade_request s t q a apiKey) = Inr resp" and "ok resp"
    and "resp_json resp = Inr data"
    and "try_parse P (message_content data) = None"
  shows "onRequestPost P fetch e req =
      ([grade_request s t q a apiKey],
       Inr (jsonResponse (error_body ''Failed to parse grading JSON.'') 500 (getCorsOrigin P req)))
    \<and> (\<forall>c. message_content data = JStr c \<longrightarrow>
          question_of_reply P data =
            (if trim c \<noteq> [] then Inr (JObj [(''question'', JStr (trim c))])
             else Inl (Exn ''No question returned from model.'')))"
proof -
  have "onRequestPost P fetch e req =
    ([grade_request s t q a apiKey],
     Inr (case grading_of_reply P data of
            Inl ex \<Rightarrow>
              jsonResponse
                (error_body (if message ex \<noteq> [] then message ex else ''Internal error.''))
                500 (getCorsOrigin P req)
          | Inr result \<Rightarrow> jsonResponse result 200 (getCorsOrigin P req)))"
    using assms(1-14) by (rule post_grade)
  moreover have "grading_of_reply P data = Inl (Exn ''Failed to parse grading JSON.'')"
    using assms(15) by (simp add: grading_of_reply_def)
  moreover have "\<forall>c. message_content data = JStr c \<longrightarrow>
          question_of_reply P data =
            (if trim c \<noteq> [] then Inr (JObj [(''question'', JStr (trim c))])
             else Inl (Exn ''No question returned from model.''))"
    using assms(15) by (auto simp: question_of_reply_def)
  ultimately show ?thesis
    by simp
qed

theorem grade_hard_fails_on_unparseable_content_witness:
  "in_allow_list ''Physics'' ''Electricity'' \<and>
   try_parse example_platform (message_content (completion ''Merit, 6 out of 8'')) = None \<and>
   onRequestPost example_platform (provider_replying (completion ''Merit, 6 out of 8'')) example_env
       (post None (grade_body ''Physics'' ''Electricity'' example_answers)) =
     ([grade_request ''Physics'' ''Electricity'' ''What is voltage?'' ''Energy per charge.'' ''sk-test''],
      Inr (jsonResponse (error_body ''Failed to parse grading JSON.'') 500 ''https://artinamr.xyz'')) \<and>
   question_of_reply example_platform (completion ''Merit, 6 out of 8'') =
     Inr (JObj [(''question'', JStr ''Merit, 6 out of 8'')])"
proof -
  have "trim ''Merit, 6 out of 8'' = ''Merit, 6 out of 8''"
    by code_simp
  then show ?thesis
    using grade_hard_fails_on_unparseable_content
      [where e = example_env and apiKey = "''sk-test''"
         and req = "post None (grade_body ''Physics'' ''Electricity'' example_answers)"
         and b = "grade_body ''Physics'' ''Electricity'' example_answers"
         and s = "''Physics''" and t = "''Electricity''"
         and q = "''What is voltage?''" and a = "''Energy per charge.''"
         and fetch = "provider_replying (completion ''Merit, 6 out of 8'')"
         and resp = "\<lparr>ok = True, resp_status = 200,
                       resp_json = Inr (completion ''Merit, 6 out of 8'')\<rparr>"
         and data = "completion ''Merit, 6 out of 8''"
         and P = example_platform]
    by (simp add: in_allow_list_iff provider_replying_def example_JSON_parse_def)
qed

section \<open>Validation of the grading reply (C4, C9)\<close>

text \<open>The example \<^verbatim>\<open>grade\<close> request, answered by a provider whose reply has the content \<open>c\<close>.\<close>

lemma example_grade_post:
  "onRequestPost example_platform (provider_replying (completion c)) example_env
       (post None (grade_body ''Physics'' ''Electricity'' example_answers)) =
     ([grade_request ''Physics'' ''Electricity'' ''What is voltage?'' ''Energy per charge.'' ''sk-test''],
      Inr (case grading_of_reply example_platform (completion c) of
            Inl ex \<Rightarrow>
              jsonResponse
                (error_body (if message ex \<noteq> [] then message ex else ''Internal error.''))
                500 ''https://artinamr.xyz''
          | Inr result \<Rightarrow> jsonResponse result 200 ''https://artinamr.xyz''))"
  using post_grade
      [where e = example_env and apiKey = "''sk-test''"
         and req = "post None (grade_body ''Physics'' ''Electricity'' example_answers)"
         and b = "grade_body ''Physics'' ''Electricity'' example_answers"
         and s = "''Physics''" and t = "''Electricity''"
         and q = "''What is voltage?''" and a = "''Energy per charge.''"
         and fetch = "provider_replying (completion c)"
         and resp = "\<lparr>ok = True, resp_status = 200, resp_json = Inr (completion c)\<rparr>"
         and data = "completion c"
         and P = example_platform]
  by (simp add: in_allow_list_iff provider_replying_def split: sum.splits)

text \<open>
  C4 claims that a grading reply that parses is answered with status 500 and the error
  \<^verbatim>\<open>Incomplete grading response.\<close> when \<^verbatim>\<open>grade_band\<close> or \<^verbatim>\<open>score\<close> is absent, and with
  status 200 otherwise. The first half holds. The second does not: line 128 tests
  \<^verbatim>\<open>grade_band\<close> for truthiness, so a \<^verbatim>\<open>grade_band\<close> that is present but falsy (the empty
  string, \<^verbatim>\<open>0\<close>, \<^verbatim>\<open>false\<close>, \<^verbatim>\<open>null\<close>) is answered with the same 500. The answer is 200
  exactly when \<^verbatim>\<open>grade_band\<close> is truthy and \<^verbatim>\<open>score\<close> is not \<^verbatim>\<open>undefined\<close>; it then carries
  \<^verbatim>\<open>grade_band\<close>, \<^verbatim>\<open>score\<close>, \<^verbatim>\<open>feedback\<close> and \<^verbatim>\<open>improved_answer\<close>, the last two replaced by the
  empty string when they are absent or falsy.
\<close>

theorem grade_reply_validation:
  assumes "OPENAI_API_KEY e = Some apiKey" and "apiKey \<noteq> []"
    and "request_json req = Some b"
    and "js_get b ''action'' = JStr ''grade''"
    and "js_get b ''subject'' = JStr s" and "js_get b ''topic'' = JStr t"
    and "in_allow_list s t"
    and "truthy (js_get b ''question'')" and "to_string (js_get b ''question'') = Inr q"
    and "truthy (js_get b ''answer'')" and "to_string (js_get b ''answer'') = Inr a"
    and "fetch (grade_request s t q a apiKey) = Inr resp" and "ok resp"
    and "resp_json resp = Inr data"
    and "try_parse P (message_content data) = Some parsed"
  shows "onRequestPost P fetch e req =
      ([grade_request s t q a apiKey],
       Inr (if \<not> truthy (js_get parsed ''grade_band'') \<or> js_get parsed ''score'' = JUndefined
            then jsonResponse (error_body ''Incomplete grading response.'') 500
                   (getCorsOrigin P req)
            else jsonResponse
                   (JObj [(''grade_band'', js_get parsed ''grade_band''),
                          (''score'', js_get parsed ''score''),
                          (''feedback'',
                             if truthy (js_get parsed ''feedback'')
                             then js_get parsed ''feedback'' else JStr []),
                          (''improved_answer'',
                             if truthy (js_get parsed ''improved_answer'')
                             then js_get parsed ''improved_answer'' else JStr [])])
                   200 (getCorsOrigin P req)))
    \<and> (\<forall>kvs. parsed = JObj kvs \<longrightarrow>
          map_of kvs ''grade_band'' = None \<or> map_of kvs ''score'' = None \<longrightarrow>
          onRequestPost P fetch e req =
            ([grade_request s t q a apiKey],
             Inr (jsonResponse (error_body ''Incomplete grading response.'') 500
                    (getCorsOrigin P req))))"
proof -
  have "onRequestPost P fetch e req =
    ([grade_request s t q a apiKey],
     Inr (case grading_of_reply P data of
            Inl ex \<Rightarrow>
              jsonResponse
                (error_body (if message ex \<noteq> [] then message ex else ''Internal error.''))
                500 (getCorsOrigin P req)
          | Inr result \<Rightarrow> jsonResponse result 200 (getCorsOrigin P req)))"
    using assms(1-14) by (rule post_grade)
  with assms(15) have main: "onRequestPost P fetch e req =
      ([grade_request s t q a apiKey],
       Inr (if \<not> truthy (js_get parsed ''grade_band'') \<or> js_get parsed ''score'' = JUndefined
            then jsonResponse (error_body ''Incomplete grading response.'') 500
                   (getCorsOrigin P req)
            else jsonResponse
                   (JObj [(''grade_band'', js_get parsed ''grade_band''),
                          (''score'', js_get parsed ''score''),
                          (''feedback'',
                             if truthy (js_get parsed ''feedback'')
                             then js_get parsed ''feedback'' else JStr []),
                          (''improved_answer'',
                             if truthy (js_get parsed ''improved_answer'')
                             then js_get parsed ''improved_answer'' else JStr [])])
                   200 (getCorsOrigin P req)))"
    by (simp add: grading_of_reply_def)
  have "onRequestPost P fetch e req =
            ([grade_request s t q a apiKey],
             Inr (jsonResponse (error_body ''Incomplete grading response.'') 500
                    (getCorsOrigin P req)))"
    if "parsed = JObj kvs" and "map_of kvs ''grade_band'' = None \<or> map_of kvs ''score'' = None"
    for kvs
    using that by (auto simp: main)
  with main show ?thesis
    by blast
qed

text \<open>The reply of the witness has a \<^verbatim>\<open>grade_band\<close> and no \<^verbatim>\<open>score\<close>.\<close>

theorem grade_reply_validation_witness:
  \<open>in_allow_list ''Physics'' ''Electricity'' \<and>
   try_parse example_platform (message_content (completion ''{"grade_band":"Merit"}'')) =
     Some (JObj [(''grade_band'', JStr ''Merit'')]) \<and>
   map_of [(''grade_band'', JStr ''Merit'')] ''score'' = None \<and>
   onRequestPost example_platform (provider_replying (completion ''{"grade_band":"Merit"}''))
       example_env (post None (grade_body ''Physics'' ''Electricity'' example_answers)) =
     ([grade_request ''Physics'' ''Electricity'' ''What is voltage?'' ''Energy per charge.'' ''sk-test''],
      Inr (jsonResponse (error_body ''Incomplete grading response.'') 500 ''https://artinamr.xyz''))\<close>
  using grade_reply_validation
      [where e = example_env and apiKey = "''sk-test''"
         and req = "post None (grade_body ''Physics'' ''Electricity'' example_answers)"
         and b = "grade_body ''Physics'' ''Electricity'' example_answers"
         and s = "''Physics''" and t = "''Electricity''"
         and q = "''What is voltage?''" and a = "''Energy per charge.''"
         and fetch = \<open>provider_replying (completion ''{"grade_band":"Merit"}'')\<close>
         and resp = \<open>\<lparr>ok = True, resp_status = 200,
                       resp_json = Inr (completion ''{"grade_band":"Merit"}'')\<rparr>\<close>
         and data = \<open>completion ''{"grade_band":"Merit"}''\<close>
         and parsed = "JObj [(''grade_band'', JStr ''Merit'')]"
         and P = example_platform]
  by (simp add: in_allow_list_iff provider_replying_def example_JSON_parse_def)

text \<open>A reply in which both fields are present and \<^verbatim>\<open>grade_band\<close> is the empty string.\<close>

theorem empty_grade_band_rejected_counterexample:
  \<open>JSON_parse example_platform ''{"grade_band":"","score":5}'' =
     Some (JObj [(''grade_band'', JStr []), (''score'', JNum ''5'')]) \<and>
   map_of [(''grade_band'', JStr []), (''score'', JNum ''5'')] ''grade_band'' \<noteq> None \<and>
   map_of [(''grade_band'', JStr []), (''score'', JNum ''5'')] ''score'' \<noteq> None \<and>
   onRequestPost example_platform (provider_replying (completion ''{"grade_band":"","score":5}''))
       example_env (post None (grade_body ''Physics'' ''Electricity'' example_answers)) =
     ([grade_request ''Physics'' ''Electricity'' ''What is voltage?'' ''Energy per charge.'' ''sk-test''],
      Inr (jsonResponse (error_body ''Incomplete grading response.'') 500 ''https://artinamr.xyz''))\<close>
  by (simp add: example_grade_post grading_of_reply_def example_JSON_parse_def)

text \<open>
  C9: in the grade path \<^verbatim>\<open>score\<close> is tested against \<^verbatim>\<open>undefined\<close> and \<^verbatim>\<open>grade_band\<close> for
  truthiness. A reply that parses to \<^verbatim>\<open>{"grade_band":"Merit","score":0}\<close> is accepted and
  answered with status 200 and score 0; a reply that parses to
  \<^verbatim>\<open>{"grade_band":"","score":5}\<close> is answered with status 500 and the error
  \<^verbatim>\<open>Incomplete grading response.\<close>.
\<close>

theorem score_zero_accepted_empty_band_rejected:
  assumes "OPENAI_API_KEY e = Some apiKey" and "apiKey \<noteq> []"
    and "request_json req = Some b"
    and "js_get b ''action'' = JStr ''grade''"
    and "js_get b ''subject'' = JStr s" and "js_get b ''topic'' = JStr t"
    and "in_allow_list s t"
    and "truthy (js_get b ''question'')" and "to_string (js_get b ''question'') = Inr q"
    and "truthy (js_get b ''answer'')" and "to_string (js_get b ''answer'') = Inr a"
    and "fetch (grade_request s t q a apiKey) = Inr resp" and "ok resp"
    and "resp_json resp = Inr data"
  shows
    "(try_parse P (message_content data) =
        Some (JObj [(''grade_band'', JStr ''Merit''), (''score'', JNum ''0'')]) \<longrightarrow>
      onRequestPost P fetch e req =
        ([grade_request s t q a apiKey],
         Inr (jsonResponse
                (JObj [(''grade_band'', JStr ''Merit''), (''score'', JNum ''0''),
                       (''feedback'', JStr []), (''improved_answer'', JStr [])])
                200 (getCorsOrigin P req)))) \<and>
     (try_parse P (message_content data) =
        Some (JObj [(''grade_band'', JStr []), (''score'', JNum ''5'')]) \<longrightarrow>
      onRequestPost P fetch e req =
        ([grade_request s t q a apiKey],
         Inr (jsonResponse (error_body ''Incomplete grading response.'') 500
                (getCorsOrigin P req))))"
proof -
  have "onRequestPost P fetch e req =
    ([grade_request s t q a apiKey],
     Inr (case grading_of_reply P data of
            Inl ex \<Rightarrow>
              jsonResponse
                (error_body (if message ex \<noteq> [] then message ex else ''Internal error.''))
                500 (getCorsOrigin P req)
          | Inr result \<Rightarrow> jsonResponse result 200 (getCorsOrigin P req)))"
    using assms(1-14) by (rule post_grade)
  then show ?thesis
    by (simp add: grading_of_reply_def)
qed

theorem score_zero_accepted_empty_band_rejected_witness:
  \<open>onRequestPost example_platform
       (provider_replying (completion ''{"grade_band":"Merit","score":0}''))
       example_env (post None (grade_body ''Physics'' ''Electricity'' example_answers)) =
     ([grade_request ''Physics'' ''Electricity'' ''What is voltage?'' ''Energy per charge.'' ''sk-test''],
      Inr (jsonResponse
             (JObj [(''grade_band'', JStr ''Merit''), (''score'', JNum ''0''),
                    (''feedback'', JStr []), (''improved_answer'', JStr [])])
             200 ''https://artinamr.xyz'')) \<and>
   onRequestPost example_platform
       (provider_replying (completion ''{"grade_band":"","score":5}''))
       example_env (post None (grade_body ''Physics'' ''Electricity'' example_answers)) =
     ([grade_request ''Physics'' ''Electricity'' ''What is voltage?'' ''Energy per charge.'' ''sk-test''],
      Inr (jsonResponse (error_body ''Incomplete grading response.'') 500 ''https://artinamr.xyz''))\<close>
  using score_zero_accepted_empty_band_rejected
      [where e = example_env and apiKey = "''sk-test''"
         and req = "post None (grade_body ''Physics'' ''Electricity'' example_answers)"
         and b = "grade_body ''Physics'' ''Electricity'' example_answers"
         and s = "''Physics''" and t = "''Electricity''"
         and q = "''What is voltage?''" and a = "''Energy per charge.''"
         and fetch = \<open>provider_replying (completion ''{"grade_band":"Merit","score":0}'')\<close>
         and resp = \<open>\<lparr>ok = True, resp_status = 200,
                       resp_json = Inr (completion ''{"grade_band":"Merit","score":0}'')\<rparr>\<close>
         and data = \<open>completion ''{"grade_band":"Merit","score":0}''\<close>
         and P = example_platform]
    score_zero_accepted_empty_band_rejected
      [where e = example_env and apiKey = "''sk-test''"
         and req = "post None (grade_body ''Physics'' ''Electricity'' example_answers)"
         and b = "grade_body ''Physics'' ''Electricity'' example_answers"
         and s = "''Physics''" and t = "''Electricity''"
         and q = "''What is voltage?''" and a = "''Energy per charge.''"
         and fetch = \<open>provider_replying (completion ''{"grade_band":"","score":5}'')\<close>
         and resp = \<open>\<lparr>ok = True, resp_status = 200,
                       resp_json = Inr (completion ''{"grade_band":"","score":5}'')\<rparr>\<close>
         and data = \<open>completion ''{"grade_band":"","score":5}''\<close>
         and P = example_platform]
  by (simp add: in_allow_list_iff provider_replying_def example_JSON_parse_def)

section \<open>The CORS origin (C5)\<close>

text \<open>The value of \<^verbatim>\<open>getCorsOrigin\<close>, with the allow-set and the reduction of the origin
  written out.\<close>

lemma getCorsOrigin_value:
  "getCorsOrigin P req =
     (case new_URL P (case header_Origin req of Some v \<Rightarrow> v | None \<Rightarrow> []) of
        None \<Rightarrow> ''https://artinamr.xyz''
      | Some u \<Rightarrow>
          if protocol u @ ''//'' @ hostname u @ (if port u \<noteq> [] then '':'' @ port u else [])
             \<in> {''https://artinamr.xyz'', ''http://localhost'', ''http://localhost:3000'',
                 ''http://127.0.0.1:3000'', ''http://127.0.0.1:5500'', ''http://127.0.0.1:8788'',
                 ''http://localhost:8788''}
          then protocol u @ ''//'' @ hostname u @ (if port u \<noteq> [] then '':'' @ port u else [])
          else ''https://artinamr.xyz'')"
  by (simp add: getCorsOrigin_def canonical_origin_def allowed_origins_def url_base_def
      split: option.splits)

text \<open>The preflight answer always carries it.\<close>

lemma options_response:
  "onRequestOptions P req =
     \<lparr>status = 204,
      headers =
        [(''Access-Control-Allow-Origin'', getCorsOrigin P req),
         (''Access-Control-Allow-Methods'', ''POST, OPTIONS''),
         (''Access-Control-Allow-Headers'', ''Content-Type, Authorization'')],
      response_body = None\<rparr>"
  by (simp add: onRequestOptions_def Let_def)

text \<open>Every response that \<^verbatim>\<open>onRequestPost\<close> returns was built by \<^verbatim>\<open>jsonResponse\<close> with the
  origin computed at its first line, and carries it.\<close>

lemma post_response_shape:
  assumes "onRequestPost P fetch e req = (calls, Inr r)"
  shows "\<exists>d st. r = jsonResponse d st (getCorsOrigin P req)"
  using assms
  by (auto simp: onRequestPost_def dispatch_def Let_def
      split: option.splits if_splits sum.splits prod.splits bool.splits)

lemma post_response_origin:
  assumes "onRequestPost P fetch e req = (calls, Inr r)"
  shows "headers r =
     [(''Content-Type'', ''application/json''),
      (''Access-Control-Allow-Origin'', getCorsOrigin P req),
      (''Access-Control-Allow-Methods'', ''POST, OPTIONS''),
      (''Access-Control-Allow-Headers'', ''Content-Type, Authorization'')]"
proof -
  from assms obtain d st where "r = jsonResponse d st (getCorsOrigin P req)"
    using post_response_shape by blast
  then show ?thesis
    by (simp add: jsonResponse_def Let_def getCorsOrigin_nonempty)
qed

text \<open>\<^verbatim>\<open>onRequestPost\<close> returns a response, unless the check of line 166 throws: then it makes
  no provider call and the exception leaves it.\<close>

lemma post_returns_or_selection_throws:
  "(\<exists>calls r. onRequestPost P fetch e req = (calls, Inr r)) \<or>
   (\<exists>apiKey b ex.
      OPENAI_API_KEY e = Some apiKey \<and> apiKey \<noteq> [] \<and> request_json req = Some b \<and>
      truthy (js_get b ''action'') \<and> truthy (js_get b ''subject'') \<and>
      truthy (js_get b ''topic'') \<and>
      selection_rejected (js_get b ''subject'') (js_get b ''topic'') = Inl ex \<and>
      onRequestPost P fetch e req = ([], Inl ex))"
proof (cases "OPENAI_API_KEY e")
  case None
  then show ?thesis
    by (simp add: onRequestPost_def Let_def)
next
  case (Some apiKey)
  show ?thesis
  proof (cases "apiKey = []")
    case True
    with Some show ?thesis
      by (simp add: onRequestPost_def Let_def)
  next
    case key: False
    show ?thesis
    proof (cases "request_json req")
      case None
      with Some key show ?thesis
        by (simp add: onRequestPost_def Let_def)
    next
      case (Some pb)
      let ?b = "if truthy pb then pb else JObj []"
      show ?thesis
      proof (cases "truthy (js_get ?b ''action'') \<and> truthy (js_get ?b ''subject'') \<and>
          truthy (js_get ?b ''topic'')")
        case False
        with \<open>OPENAI_API_KEY e = Some apiKey\<close> key Some show ?thesis
          by (auto simp: onRequestPost_def Let_def)
      next
        case fields: True
        then have pb: "truthy pb"
          by (auto split: if_splits)
        show ?thesis
        proof (cases "selection_rejected (js_get pb ''subject'') (js_get pb ''topic'')")
          case (Inl ex)
          with \<open>OPENAI_API_KEY e = Some apiKey\<close> key Some fields pb show ?thesis
            by (simp add: onRequestPost_def Let_def)
        next
          case (Inr rejected)
          with \<open>OPENAI_API_KEY e = Some apiKey\<close> key Some fields pb show ?thesis
            by (cases "dispatch P fetch apiKey (getCorsOrigin P req) pb")
              (auto simp: onRequestPost_def Let_def split: sum.splits bool.splits)
        qed
      qed
    qed
  qed
qed

text \<open>Preflight requests from \<^verbatim>\<open>http://localhost:3000\<close>, from \<^verbatim>\<open>http://evil.example\<close>,
  without an origin and with the origin \<^verbatim>\<open>null\<close>, which is no URL; and a POST request from
  \<^verbatim>\<open>http://localhost:3000\<close> whose body is not JSON.\<close>

lemma cors_examples:
  "onRequestOptions example_platform
     \<lparr>header_Origin = Some ''http://localhost:3000'', request_json = None\<rparr> =
     \<lparr>status = 204,
      headers =
        [(''Access-Control-Allow-Origin'', ''http://localhost:3000''),
         (''Access-Control-Allow-Methods'', ''POST, OPTIONS''),
         (''Access-Control-Allow-Headers'', ''Content-Type, Authorization'')],
      response_body = None\<rparr>"
  "map_of (headers (onRequestOptions example_platform
     \<lparr>header_Origin = Some ''http://evil.example'', request_json = None\<rparr>))
     ''Access-Control-Allow-Origin'' = Some ''https://artinamr.xyz''"
  "map_of (headers (onRequestOptions example_platform
     \<lparr>header_Origin = None, request_json = None\<rparr>))
     ''Access-Control-Allow-Origin'' = Some ''https://artinamr.xyz''"
  "map_of (headers (onRequestOptions example_platform
     \<lparr>header_Origin = Some ''null'', request_json = None\<rparr>))
     ''Access-Control-Allow-Origin'' = Some ''https://artinamr.xyz''"
  "onRequestPost example_platform fetch example_env
       \<lparr>header_Origin = Some ''http://localhost:3000'', request_json = None\<rparr> =
     ([], Inr \<lparr>status = 400,
               headers =
                 [(''Content-Type'', ''application/json''),
                  (''Access-Control-Allow-Origin'', ''http://localhost:3000''),
                  (''Access-Control-Allow-Methods'', ''POST, OPTIONS''),
                  (''Access-Control-Allow-Headers'', ''Content-Type, Authorization'')],
               response_body = Some (JObj [(''error'', JStr ''Invalid JSON body.'')])\<rparr>)"
  by (simp_all add: options_response getCorsOrigin_value example_new_URL_def
      onRequestPost_def Let_def jsonResponse_def error_body_def)

text \<open>
  C5 claims that for every request, OPTIONS or POST, on success and on failure, the header
  \<^verbatim>\<open>Access-Control-Allow-Origin\<close> is the value computed from the request's \<^verbatim>\<open>Origin\<close> header;
  in particular an origin that reduces to a member of the allow-set is echoed back. That
  holds of every response the two handlers return. But a POST request whose subject names
  a property inherited from \<^verbatim>\<open>Object.prototype\<close> is a request too, and it gets no response
  from the handler: line 166 throws before the \<^verbatim>\<open>try\<close> block, so nothing carries the header,
  whatever the origin, here one of the allow-set.
\<close>

theorem no_cors_header_when_selection_throws:
  assumes "OPENAI_API_KEY e = Some apiKey" and "apiKey \<noteq> []"
    and "request_json req = Some b"
    and "truthy (js_get b ''action'')"
    and "js_get b ''subject'' = JStr s" and "s \<in> set Object_prototype_names"
    and "truthy (js_get b ''topic'')"
    and "header_Origin req = Some v" and "new_URL P v = Some u"
    and "url_base u \<in> set allowed_origins"
  shows "getCorsOrigin P req = url_base u \<and>
    onRequestPost P fetch e req =
      ([], Inl (Exn ''ALLOWED[subject].includes is not a function'')) \<and>
    (\<forall>calls r. onRequestPost P fetch e req \<noteq> (calls, Inr r))"
proof -
  from assms(6) have s: "s \<noteq> []" "map_of ALLOWED s = None"
    by (auto simp: Object_prototype_names_def ALLOWED_def)
  with assms(6) have "selection_rejected (JStr s) (js_get b ''topic'') =
      Inl (Exn ''ALLOWED[subject].includes is not a function'')"
    by (simp add: selection_rejected_def ALLOWED_get_def)
  moreover from assms(4) have "truthy b"
    by (rule truthy_js_get)
  ultimately have "onRequestPost P fetch e req =
      ([], Inl (Exn ''ALLOWED[subject].includes is not a function''))"
    using assms(1-5,7) s(1) by (simp add: onRequestPost_def Let_def)
  moreover from assms(8-10) have "getCorsOrigin P req = url_base u"
    by (simp add: getCorsOrigin_def)
  ultimately show ?thesis
    by simp
qed

text \<open>The request \<^verbatim>\<open>{"action":"generate","subject":"constructor","topic":"Electricity"}\<close> from
  the origin \<^verbatim>\<open>http://localhost:3000\<close>.\<close>

theorem no_cors_header_when_selection_throws_witness:
  "''constructor'' \<in> set Object_prototype_names \<and>
   new_URL example_platform ''http://localhost:3000'' =
     Some \<lparr>protocol = ''http:'', hostname = ''localhost'', port = ''3000''\<rparr> \<and>
   url_base \<lparr>protocol = ''http:'', hostname = ''localhost'', port = ''3000''\<rparr> =
     ''http://localhost:3000'' \<and>
   ''http://localhost:3000'' \<in> set allowed_origins \<and>
   getCorsOrigin example_platform
       (post (Some ''http://localhost:3000'') (generate_body ''constructor'' ''Electricity'')) =
     ''http://localhost:3000'' \<and>
   onRequestPost example_platform (provider_replying (completion ''Q'')) example_env
       (post (Some ''http://localhost:3000'') (generate_body ''constructor'' ''Electricity'')) =
     ([], Inl (Exn ''ALLOWED[subject].includes is not a function''))"
  using no_cors_header_when_selection_throws
    [where e = example_env and apiKey = "''sk-test''"
       and req = "post (Some ''http://localhost:3000'')
                    (generate_body ''constructor'' ''Electricity'')"
       and b = "generate_body ''constructor'' ''Electricity''" and s = "''constructor''"
       and v = "''http://localhost:3000''"
       and u = "\<lparr>protocol = ''http:'', hostname = ''localhost'', port = ''3000''\<rparr>"
       and P = example_platform and fetch = "provider_replying (completion ''Q'')"]
  by (simp add: Object_prototype_names_def example_new_URL_def url_base_def allowed_origins_def)

section \<open>Exceptions of the dispatch (C8)\<close>

text \<open>When the \<^verbatim>\<open>try\<close> block has called the provider, a rejected call, an error status and an
  undecodable reply each end it with the corresponding exception.\<close>

lemma dispatch_provider_failure:
  assumes "dispatch P fetch apiKey origin b = ([rq], res)"
  shows "(\<forall>ex. fetch rq = Inl ex \<longrightarrow> res = Inl ex) \<and>
    (\<forall>resp. fetch rq = Inr resp \<longrightarrow> \<not> ok resp \<longrightarrow> res = Inl (openai_error (resp_status resp))) \<and>
    (\<forall>resp ex. fetch rq = Inr resp \<longrightarrow> ok resp \<longrightarrow> resp_json resp = Inl ex \<longrightarrow> res = Inl ex)"
  using assms
  by (auto simp: dispatch_def generateQuestion_def gradeAnswer_def Let_def
      split: if_splits sum.splits prod.splits)

lemma example_dispatch_refused:
  "dispatch P (provider_refusing st) k origin (generate_body s t) =
     ([generate_request s t k], Inl (openai_error st))"
  by (simp add: dispatch_def generateQuestion_def Let_def provider_refusing_def)

lemma example_dispatch_unreachable:
  "dispatch P (provider_unreachable ex) k origin (generate_body s t) =
     ([generate_request s t k], Inl ex)"
  by (simp add: dispatch_def generateQuestion_def Let_def provider_unreachable_def)

text \<open>
  C8 claims that every exception raised during the dispatch is turned into a response with
  status 500 and the body \<^verbatim>\<open>{error: <the exception's message>}\<close>. The handler does catch
  every such exception and answers 500, so that no fault leaves it once the dispatch is
  reached; a failed provider call is reported as \<^verbatim>\<open>OpenAI error (<status>)\<close>. But the body
  carries the exception's message only when that message is not empty: for an empty message
  line 185 puts \<^verbatim>\<open>Internal error.\<close> in its place.
\<close>

theorem dispatch_exceptions_become_500:
  assumes "OPENAI_API_KEY e = Some apiKey" and "apiKey \<noteq> []"
    and "request_json req = Some b"
    and "truthy (js_get b ''action'')" and "truthy (js_get b ''subject'')"
    and "truthy (js_get b ''topic'')"
    and "selection_rejected (js_get b ''subject'') (js_get b ''topic'') = Inr False"
  shows
    "(\<exists>calls r. onRequestPost P fetch e req = (calls, Inr r)) \<and>
     (\<forall>calls ex. dispatch P fetch apiKey (getCorsOrigin P req) b = (calls, Inl ex) \<longrightarrow>
        onRequestPost P fetch e req =
          (calls, Inr (jsonResponse
             (error_body (if message ex \<noteq> [] then message ex else ''Internal error.''))
             500 (getCorsOrigin P req)))) \<and>
     (\<forall>rq resp. fst (dispatch P fetch apiKey (getCorsOrigin P req) b) = [rq] \<longrightarrow>
        fetch rq = Inr resp \<longrightarrow> \<not> ok resp \<longrightarrow>
        onRequestPost P fetch e req =
          ([rq], Inr (jsonResponse
             (error_body (''OpenAI error ('' @ string_of_nat (resp_status resp) @ '')''))
             500 (getCorsOrigin P req)))) \<and>
     (\<forall>rq ex. fst (dispatch P fetch apiKey (getCorsOrigin P req) b) = [rq] \<longrightarrow>
        fetch rq = Inl ex \<longrightarrow>
        onRequestPost P fetch e req =
          ([rq], Inr (jsonResponse
             (error_body (if message ex \<noteq> [] then message ex else ''Internal error.''))
             500 (getCorsOrigin P req))))"
proof -
  let ?d = "dispatch P fetch apiKey (getCorsOrigin P req) b"
  have post: "onRequestPost P fetch e req =
    (case ?d of
       (calls, Inl ex) \<Rightarrow>
         (calls, Inr (jsonResponse
            (error_body (if message ex \<noteq> [] then message ex else ''Internal error.''))
            500 (getCorsOrigin P req)))
     | (calls, Inr r) \<Rightarrow> (calls, Inr r))"
    using assms by (rule post_dispatch)
  have 1: "\<exists>calls r. onRequestPost P fetch e req = (calls, Inr r)"
    by (cases ?d) (auto simp: post split: sum.splits)
  have 2: "onRequestPost P fetch e req =
          (calls, Inr (jsonResponse
             (error_body (if message ex \<noteq> [] then message ex else ''Internal error.''))
             500 (getCorsOrigin P req)))"
    if "?d = (calls, Inl ex)" for calls ex
    using that by (simp add: post)
  have 3: "onRequestPost P fetch e req =
          ([rq], Inr (jsonResponse
             (error_body (''OpenAI error ('' @ string_of_nat (resp_status resp) @ '')''))
             500 (getCorsOrigin P req)))"
    if "fst ?d = [rq]" and "fetch rq = Inr resp" and "\<not> ok resp" for rq resp
  proof -
    from that(1) obtain res where d: "?d = ([rq], res)"
      by (cases ?d) simp
    with that(2,3) have "res = Inl (openai_error (resp_status resp))"
      using dispatch_provider_failure by blast
    with d show ?thesis
      by (simp add: post openai_error_def)
  qed
  have 4: "onRequestPost P fetch e req =
          ([rq], Inr (jsonResponse
             (error_body (if message ex \<noteq> [] then message ex else ''Internal error.''))
             500 (getCorsOrigin P req)))"
    if "fst ?d = [rq]" and "fetch rq = Inl ex" for rq ex
  proof -
    from that(1) obtain res where d: "?d = ([rq], res)"
      by (cases ?d) simp
    with that(2) have "res = Inl ex"
      using dispatch_provider_failure by blast
    with d show ?thesis
      by (simp add: post)
  qed
  from 1 2 3 4 show ?thesis
    by blast
qed

text \<open>A provider that answers with status 429, and one that cannot be reached.\<close>

theorem dispatch_exceptions_become_500_witness:
  "selection_rejected (JStr ''Physics'') (JStr ''Electricity'') = Inr False \<and>
   provider_refusing 429 (generate_request ''Physics'' ''Electricity'' ''sk-test'') =
     Inr \<lparr>ok = False, resp_status = 429, resp_json = Inr JNull\<rparr> \<and>
   onRequestPost example_platform (provider_refusing 429) example_env
       (post None (generate_body ''Physics'' ''Electricity'')) =
     ([generate_request ''Physics'' ''Electricity'' ''sk-test''],
      Inr (jsonResponse (error_body ''OpenAI error (429)'') 500 ''https://artinamr.xyz'')) \<and>
   onRequestPost example_platform (provider_unreachable (Exn ''Network connection lost.''))
       example_env (post None (generate_body ''Physics'' ''Electricity'')) =
     ([generate_request ''Physics'' ''Electricity'' ''sk-test''],
      Inr (jsonResponse (error_body ''Network connection lost.'') 500 ''https://artinamr.xyz''))"
proof -
  have "string_of_nat 429 = ''429''"
    by code_simp
  then show ?thesis
    using dispatch_exceptions_become_500
      [where e = example_env and apiKey = "''sk-test''"
         and req = "post None (generate_body ''Physics'' ''Electricity'')"
         and b = "generate_body ''Physics'' ''Electricity''"
         and fetch = "provider_refusing 429" and P = example_platform]
      dispatch_exceptions_become_500
      [where e = example_env and apiKey = "''sk-test''"
         and req = "post None (generate_body ''Physics'' ''Electricity'')"
         and b = "generate_body ''Physics'' ''Electricity''"
         and fetch = "provider_unreachable (Exn ''Network connection lost.'')"
         and P = example_platform]
    by (simp add: selection_accepted in_allow_list_iff example_dispatch_refused
        example_dispatch_unreachable provider_refusing_def provider_unreachable_def
        openai_error_def)
qed

text \<open>A provider call that is rejected with an error whose message is empty.\<close>

theorem empty_message_internal_error_counterexample:
  "message (Exn []) = [] \<and>
   dispatch example_platform (provider_unreachable (Exn [])) ''sk-test'' ''https://artinamr.xyz''
       (generate_body ''Physics'' ''Electricity'') =
     ([generate_request ''Physics'' ''Electricity'' ''sk-test''], Inl (Exn [])) \<and>
   onRequestPost example_platform (provider_unreachable (Exn [])) example_env
       (post None (generate_body ''Physics'' ''Electricity'')) =
     ([generate_request ''Physics'' ''Electricity'' ''sk-test''],
      Inr (jsonResponse (error_body ''Internal error.'') 500 ''https://artinamr.xyz'')) \<and>
   error_body ''Internal error.'' \<noteq> error_body (message (Exn []))"
proof -
  have "onRequestPost example_platform (provider_unreachable (Exn [])) example_env
       (post None (generate_body ''Physics'' ''Electricity'')) =
    (case dispatch example_platform (provider_unreachable (Exn [])) ''sk-test''
            (getCorsOrigin example_platform (post None (generate_body ''Physics'' ''Electricity'')))
            (generate_body ''Physics'' ''Electricity'') of
       (calls, Inl ex) \<Rightarrow>
         (calls, Inr (jsonResponse
            (error_body (if message ex \<noteq> [] then message ex else ''Internal error.''))
            500 (getCorsOrigin example_platform
                   (post None (generate_body ''Physics'' ''Electricity'')))))
     | (calls, Inr r) \<Rightarrow> (calls, Inr r))"
    by (rule post_dispatch) (simp_all add: selection_accepted in_allow_list_iff)
  then show ?thesis
    by (simp add: example_dispatch_unreachable error_body_def)
qed

end
